theory Spec2Isabelle
  imports Main "HOL-Library.Word" "HOL-Library.Multiset"
begin

section \<open>The Task API service (backend/server.js)\<close>

subsection \<open>Documents and request bodies\<close>

text \<open>
  An ObjectId is a 12-byte value; its JSON form is the text of 24 lower-case hexadecimal
  digits.
\<close>

type_synonym oid = "96 word"

definition hex_digit :: "nat \<Rightarrow> char" where
  "hex_digit n = ''0123456789abcdef'' ! (n mod 16)"

definition oid_hex :: "oid \<Rightarrow> string" where
  "oid_hex x = map (\<lambda>i. hex_digit (unat (drop_bit (4 * (23 - i)) x))) [0..<24]"

text \<open>
  A path of a stored document is unset (\<open>undefined\<close>), \<open>null\<close>, or holds a value of the
  type the schema declares for it.
\<close>

datatype 'a field = Unset | Null | Val 'a

text \<open>
  What a parsed request body says about one path of the schema, as the cast sees it:
  nothing (the key is absent), a value that cannot be cast to the declared type (the cast
  raises), \<open>null\<close>, a value that casts, or that the path is to be removed (the path is
  named under the update operator \<open>$unset\<close>). A body says one of these for each path.
  Not represented are: a body that names a path both as a key and under \<open>$unset\<close>, the
  update operators other than \<open>$unset\<close> (a key given under \<open>$set\<close> is the key itself),
  and the keys \<open>_id\<close> and \<open>__v\<close>. Keys that the schema does not declare are dropped by the
  model layer.
\<close>

datatype 'a input = Omitted | Uncastable | GivenNull | Given 'a | ToUnset

text \<open>
  \<^verbatim>\<open>
  const TaskSchema = new mongoose.Schema({
    title: { type: String, required: true },
    description: String,
    completed: { type: Boolean, default: false },
    createdAt: { type: Date, default: Date.now },
    serverHostname: String,
    serverIp: String
  });
  \<close>
  Dates are milliseconds since the epoch.
\<close>

record task =
  task_id :: oid
  title :: "string field"
  description :: "string field"
  completed :: "bool field"
  createdAt :: "int field"
  serverHostname :: "string field"
  serverIp :: "string field"

record body =
  b_title :: "string input"
  b_description :: "string input"
  b_completed :: "bool input"
  b_createdAt :: "int input"
  b_serverHostname :: "string input"
  b_serverIp :: "string input"

definition empty_body :: body where
  "empty_body = \<lparr> b_title = Omitted, b_description = Omitted, b_completed = Omitted,
     b_createdAt = Omitted, b_serverHostname = Omitted, b_serverIp = Omitted \<rparr>"

subsection \<open>The process environment\<close>

record iface =
  family :: string
  internal :: bool
  address :: string

text \<open>
  What a request handler reads from its process: \<open>os.hostname()\<close>,
  \<open>os.networkInterfaces()\<close> (interface names in key order), \<open>Date.now()\<close>, and the
  ObjectId the driver generates for the next new document.
\<close>

record env =
  hostname :: string
  interfaces :: "(string \<times> iface list) list"
  now :: int
  new_id :: oid

text \<open>
  \<^verbatim>\<open>
  function getServerIp() {
    const interfaces = os.networkInterfaces();
    for (const name of Object.keys(interfaces)) {
      for (const iface of interfaces[name]) {
        if (iface.family === 'IPv4' && !iface.internal) {
          return iface.address;
        }
      }
    }
    return 'unknown';
  }
  \<close>
\<close>

fun scan_ifaces :: "iface list \<Rightarrow> string option" where
  "scan_ifaces [] = None"
| "scan_ifaces (i # is) =
     (if family i = ''IPv4'' \<and> \<not> internal i then Some (address i) else scan_ifaces is)"

fun scan_names :: "(string \<times> iface list) list \<Rightarrow> string option" where
  "scan_names [] = None"
| "scan_names ((name, is) # rest) =
     (case scan_ifaces is of Some a \<Rightarrow> Some a | None \<Rightarrow> scan_names rest)"

definition getServerIp :: "env \<Rightarrow> string" where
  "getServerIp e = (case scan_names (interfaces e) of Some a \<Rightarrow> a | None \<Rightarrow> ''unknown'')"

subsection \<open>The document store behind the Task model\<close>

text \<open>
  The collection holds the documents in insertion order. \<open>fault\<close> is the failure, if any,
  with which the store answers an operation (a lost connection, a failed query) and its
  message.
\<close>

record store =
  docs :: "task list"
  fault :: "string option"

text \<open>
  The errors a handler catches. A validation error names every failing path, a cast error
  of the route parameter names \<open>_id\<close>. A cast error of an update body names one of the
  body's uncastable paths (which one depends on the order in which the cast walks the
  keys of the body); it is kept with all of them.
\<close>

datatype error =
    ValidationError "string list"
  | CastError string
  | BodyCastError "string list"
  | DuplicateKey oid
  | StoreError string

text \<open>
  The body of a response: a document, an array of documents, \<open>null\<close>,
  \<open>{ message: m }\<close>, or \<open>{ error: error.message }\<close> for the error that was caught.
\<close>

datatype reply =
    TaskJson task
  | TaskArray "task list"
  | NullJson
  | Message string
  | Error error

type_synonym response = "nat \<times> reply"

text \<open>
  A document read from the store is handed to the program with the schema defaults filled
  in for the paths that the stored document lacks: \<open>completed\<close> false, \<open>createdAt\<close> the
  value of \<open>Date.now()\<close> at that moment. A stored \<open>null\<close> is kept. The stored document
  is not changed by this.
\<close>

definition hydrate :: "env \<Rightarrow> task \<Rightarrow> task" where
  "hydrate e t =
     t\<lparr> completed := (case completed t of Unset \<Rightarrow> Val False | v \<Rightarrow> v),
        createdAt := (case createdAt t of Unset \<Rightarrow> Val (now e) | v \<Rightarrow> v) \<rparr>"

text \<open>
  \<open>Task.find().sort({ createdAt: -1 })\<close>: every document, sorted by the store in
  descending order of the stored \<open>createdAt\<close>, then hydrated. In the store's ordering a
  missing or \<open>null\<close> key is lower than every date, so such documents come last.
\<close>

fun created_key :: "task \<Rightarrow> int option" where
  "created_key t = (case createdAt t of Val n \<Rightarrow> Some n | _ \<Rightarrow> None)"

fun key_ge :: "int option \<Rightarrow> int option \<Rightarrow> bool" where
  "key_ge _ None = True"
| "key_ge None (Some _) = False"
| "key_ge (Some a) (Some b) = (b \<le> a)"

definition newer_eq :: "task \<Rightarrow> task \<Rightarrow> bool" where
  "newer_eq a b = key_ge (created_key a) (created_key b)"

fun insert_desc :: "task \<Rightarrow> task list \<Rightarrow> task list" where
  "insert_desc x [] = [x]"
| "insert_desc x (y # ys) =
     (if newer_eq x y then x # y # ys else y # insert_desc x ys)"

definition sort_desc :: "task list \<Rightarrow> task list" where
  "sort_desc ts = foldr insert_desc ts []"

definition find_sorted :: "env \<Rightarrow> store \<Rightarrow> error + task list" where
  "find_sorted e db =
     (case fault db of
        Some m \<Rightarrow> Inl (StoreError m)
      | None \<Rightarrow> Inr (map (hydrate e) (sort_desc (docs db))))"

text \<open>
  \<open>new Task(obj)\<close>: each path takes the cast value of \<open>obj\<close>; a path that \<open>obj\<close> leaves
  \<open>undefined\<close>, or whose cast failed, takes the schema default when there is one (the key
  \<open>$unset\<close> is not a path of the schema and is dropped). The paths whose cast failed are
  kept with the document for \<open>save\<close> to report. The document gets a fresh ObjectId.
\<close>

fun set_path :: "'a input \<Rightarrow> 'a field \<Rightarrow> 'a field" where
  "set_path Omitted d = d"
| "set_path Uncastable d = d"
| "set_path GivenNull d = Null"
| "set_path (Given v) d = Val v"
| "set_path ToUnset d = d"

definition bad_paths :: "body \<Rightarrow> string list" where
  "bad_paths b =
     (if b_title b = Uncastable then [''title''] else []) @
     (if b_description b = Uncastable then [''description''] else []) @
     (if b_completed b = Uncastable then [''completed''] else []) @
     (if b_createdAt b = Uncastable then [''createdAt''] else []) @
     (if b_serverHostname b = Uncastable then [''serverHostname''] else []) @
     (if b_serverIp b = Uncastable then [''serverIp''] else [])"

definition new_Task :: "env \<Rightarrow> body \<Rightarrow> task \<times> string list" where
  "new_Task e obj =
     (\<lparr> task_id = new_id e,
        title = set_path (b_title obj) Unset,
        description = set_path (b_description obj) Unset,
        completed = set_path (b_completed obj) (Val False),
        createdAt = set_path (b_createdAt obj) (Val (now e)),
        serverHostname = set_path (b_serverHostname obj) Unset,
        serverIp = set_path (b_serverIp obj) Unset \<rparr>,
      bad_paths obj)"

text \<open>
  \<open>task.save()\<close>: validation first (cast failures, and \<open>required\<close> on \<open>title\<close>, which a
  missing, \<open>null\<close> or empty string fails), then the insert, which the store refuses when
  it is failing or when the \<open>_id\<close> is already taken.
\<close>

fun required_fails :: "string field \<Rightarrow> bool" where
  "required_fails (Val s) = (s = [])"
| "required_fails _ = True"

definition invalid_paths :: "task \<times> string list \<Rightarrow> string list" where
  "invalid_paths d =
     (if required_fails (title (fst d)) \<and> ''title'' \<notin> set (snd d) then [''title''] else [])
     @ snd d"

definition save :: "task \<times> string list \<Rightarrow> store \<Rightarrow> error + (task \<times> store)" where
  "save d db =
     (if invalid_paths d \<noteq> [] then Inl (ValidationError (invalid_paths d))
      else case fault db of
        Some m \<Rightarrow> Inl (StoreError m)
      | None \<Rightarrow>
          if task_id (fst d) \<in> set (map task_id (docs db)) then Inl (DuplicateKey (task_id (fst d)))
          else Inr (fst d, db\<lparr>docs := docs db @ [fst d]\<rparr>))"

text \<open>
  The route parameter \<open>req.params.id\<close> as the ObjectId cast sees it: text that does not
  cast (the cast raises), or the ObjectId it denotes.
\<close>

datatype id_param = Malformed string | WellFormed oid

text \<open>
  \<open>Task.findByIdAndUpdate(id, update, { new: true })\<close>: the identifier and the update are
  cast, then the first document with that \<open>_id\<close> has the given paths set and the paths
  under \<open>$unset\<close> removed (validators do not run on updates), and is returned as updated
  and hydrated; \<open>null\<close> is returned when there is none.
\<close>

fun update_path :: "'a input \<Rightarrow> 'a field \<Rightarrow> 'a field" where
  "update_path Omitted old = old"
| "update_path Uncastable old = old"
| "update_path GivenNull old = Null"
| "update_path (Given v) old = Val v"
| "update_path ToUnset old = Unset"

definition apply_update :: "body \<Rightarrow> task \<Rightarrow> task" where
  "apply_update b t =
     t\<lparr> title := update_path (b_title b) (title t),
        description := update_path (b_description b) (description t),
        completed := update_path (b_completed b) (completed t),
        createdAt := update_path (b_createdAt b) (createdAt t),
        serverHostname := update_path (b_serverHostname b) (serverHostname t),
        serverIp := update_path (b_serverIp b) (serverIp t) \<rparr>"

fun update_first :: "oid \<Rightarrow> (task \<Rightarrow> task) \<Rightarrow> task list \<Rightarrow> task list" where
  "update_first i f [] = []"
| "update_first i f (t # ts) =
     (if task_id t = i then f t # ts else t # update_first i f ts)"

definition findByIdAndUpdate ::
  "env \<Rightarrow> id_param \<Rightarrow> body \<Rightarrow> store \<Rightarrow> error + (task option \<times> store)" where
  "findByIdAndUpdate e p b db =
     (case p of
        Malformed raw \<Rightarrow> Inl (CastError ''_id'')
      | WellFormed i \<Rightarrow>
          if bad_paths b \<noteq> [] then Inl (BodyCastError (bad_paths b))
          else
            (case fault db of
               Some m \<Rightarrow> Inl (StoreError m)
             | None \<Rightarrow>
                 (case find (\<lambda>t. task_id t = i) (docs db) of
                    None \<Rightarrow> Inr (None, db)
                  | Some t \<Rightarrow>
                      Inr (Some (hydrate e (apply_update b t)),
                           db\<lparr>docs := update_first i (apply_update b) (docs db)\<rparr>))))"

text \<open>
  \<open>Task.findByIdAndDelete(id)\<close>: the identifier is cast, then the first document with that
  \<open>_id\<close> is removed and returned, hydrated; \<open>null\<close> is returned when there is none.
\<close>

fun remove_first :: "oid \<Rightarrow> task list \<Rightarrow> task list" where
  "remove_first i [] = []"
| "remove_first i (t # ts) = (if task_id t = i then ts else t # remove_first i ts)"

definition findByIdAndDelete ::
  "env \<Rightarrow> id_param \<Rightarrow> store \<Rightarrow> error + (task option \<times> store)" where
  "findByIdAndDelete e p db =
     (case p of
        Malformed raw \<Rightarrow> Inl (CastError ''_id'')
      | WellFormed i \<Rightarrow>
          (case fault db of
             Some m \<Rightarrow> Inl (StoreError m)
           | None \<Rightarrow>
               Inr (map_option (hydrate e) (find (\<lambda>t. task_id t = i) (docs db)),
                    db\<lparr>docs := remove_first i (docs db)\<rparr>)))"

subsection \<open>The request handlers\<close>

text \<open>
  \<^verbatim>\<open>
  app.get('/api/tasks', async (req, res) => {
    try {
      const tasks = await Task.find().sort({ createdAt: -1 });
      res.json(tasks);
    } catch (error) {
      res.status(500).json({ error: error.message });
    }
  });
  \<close>
\<close>

definition get_api_tasks :: "env \<Rightarrow> store \<Rightarrow> response" where
  "get_api_tasks e db =
     (case find_sorted e db of
        Inr tasks \<Rightarrow> (200, TaskArray tasks)
      | Inl err \<Rightarrow> (500, Error err))"

text \<open>
  \<^verbatim>\<open>
  app.post('/api/tasks', async (req, res) => {
    try {
      const task = new Task({
        ...req.body,
        serverHostname: os.hostname(),
        serverIp: getServerIp()
      });
      const savedTask = await task.save();
      res.status(201).json(savedTask);
    } catch (error) {
      res.status(400).json({ error: error.message });
    }
  });
  \<close>
\<close>

definition post_api_tasks :: "env \<Rightarrow> body \<Rightarrow> store \<Rightarrow> response \<times> store" where
  "post_api_tasks e req_body db =
     (let task = new_Task e
            (req_body\<lparr> b_serverHostname := Given (hostname e),
                       b_serverIp := Given (getServerIp e) \<rparr>)
      in case save task db of
           Inr (savedTask, db') \<Rightarrow> ((201, TaskJson savedTask), db')
         | Inl err \<Rightarrow> ((400, Error err), db))"

text \<open>
  \<^verbatim>\<open>
  app.put('/api/tasks/:id', async (req, res) => {
    try {
      const task = await Task.findByIdAndUpdate(req.params.id, req.body, { new: true });
      res.json(task);
    } catch (error) {
      res.status(400).json({ error: error.message });
    }
  });
  \<close>
\<close>

definition put_api_tasks_id ::
  "env \<Rightarrow> id_param \<Rightarrow> body \<Rightarrow> store \<Rightarrow> response \<times> store" where
  "put_api_tasks_id e req_id req_body db =
     (case findByIdAndUpdate e req_id req_body db of
        Inr (Some task, db') \<Rightarrow> ((200, TaskJson task), db')
      | Inr (None, db') \<Rightarrow> ((200, NullJson), db')
      | Inl err \<Rightarrow> ((400, Error err), db))"

text \<open>
  \<^verbatim>\<open>
  app.delete('/api/tasks/:id', async (req, res) => {
    try {
      await Task.findByIdAndDelete(req.params.id);
      res.json({ message: 'Task deleted' });
    } catch (error) {
      res.status(400).json({ error: error.message });
    }
  });
  \<close>
\<close>

definition delete_api_tasks_id :: "env \<Rightarrow> id_param \<Rightarrow> store \<Rightarrow> response \<times> store" where
  "delete_api_tasks_id e req_id db =
     (case findByIdAndDelete e req_id db of
        Inr (_, db') \<Rightarrow> ((200, Message ''Task deleted''), db')
      | Inl err \<Rightarrow> ((400, Error err), db))"

section \<open>The web client (frontend/src/App.js)\<close>

subsection \<open>JSON values as the client reads them\<close>

text \<open>
  A parsed JSON value (numbers are restricted to integers; an object is its list of
  bindings, one per key), and a JavaScript value that may also be \<open>undefined\<close>. An array
  or object value carries its identity, the address at which it was allocated: a
  value that is passed on or stored in several places keeps its address, and every parse
  of a response allocates its arrays and objects at addresses not in use.
\<close>

datatype json =
    JNull
  | JBool bool
  | JNum int
  | JStr string
  | JArr nat "json list"
  | JObj nat "(string \<times> json) list"

datatype jsval = Undefined | J json

text \<open>
  Reading a property \<open>v.k\<close>, for the keys this program reads (\<open>_id\<close>, \<open>completed\<close>), which
  only an object can carry: reading from \<open>null\<close> throws a TypeError (\<open>None\<close>), any other
  value without the key gives \<open>undefined\<close>.
\<close>

fun get_prop :: "string \<Rightarrow> json \<Rightarrow> jsval option" where
  "get_prop k JNull = None"
| "get_prop k (JObj a kvs) = Some (case map_of kvs k of None \<Rightarrow> Undefined | Some v \<Rightarrow> J v)"
| "get_prop k _ = Some Undefined"

text \<open>
  \<open>a === b\<close>. Primitives compare by value, arrays and objects by identity.
\<close>

fun strict_eq :: "jsval \<Rightarrow> jsval \<Rightarrow> bool" where
  "strict_eq Undefined b = (b = Undefined)"
| "strict_eq (J JNull) b = (b = J JNull)"
| "strict_eq (J (JBool x)) b = (b = J (JBool x))"
| "strict_eq (J (JNum x)) b = (b = J (JNum x))"
| "strict_eq (J (JStr x)) b = (b = J (JStr x))"
| "strict_eq (J (JArr a _)) b = (case b of J (JArr a' _) \<Rightarrow> a = a' | _ \<Rightarrow> False)"
| "strict_eq (J (JObj a _)) b = (case b of J (JObj a' _) \<Rightarrow> a = a' | _ \<Rightarrow> False)"

text \<open>\<open>!v\<close>: true exactly for the falsy values.\<close>

fun js_not :: "jsval \<Rightarrow> bool" where
  "js_not Undefined = True"
| "js_not (J JNull) = True"
| "js_not (J (JBool b)) = (\<not> b)"
| "js_not (J (JNum n)) = (n = 0)"
| "js_not (J (JStr s)) = (s = [])"
| "js_not (J (JArr _ _)) = False"
| "js_not (J (JObj _ _)) = False"

subsection \<open>Requests, responses and the view's state\<close>

text \<open>
  The requests the client issues with \<open>fetch\<close>. A JSON request body is written as the
  parsed body the service obtains from it: the client only ever sends string values for
  string paths and a boolean for \<open>completed\<close>, which the schema's casts leave as they are.
\<close>

datatype request =
    GET_tasks
  | GET_server_info
  | POST_tasks body
  | PUT_task jsval body
  | DELETE_task jsval

text \<open>
  What the two awaits \<open>await fetch(...)\<close> and \<open>await response.json()\<close> produce: \<open>fetch\<close>
  rejects (a network-level failure), or a response arrived with some status and a body
  that parses as JSON (\<open>Some\<close>) or does not (\<open>None\<close>, \<open>response.json()\<close> rejects).
\<close>

datatype fetched = NetworkError | Response nat "json option"

datatype callback = FetchServerInfo

record timer =
  timer_id :: nat
  period :: nat
  due :: nat
  run :: callback

text \<open>
  The component's state (\<open>tasks\<close>, \<open>newTask\<close> as title and description, \<open>loading\<close>),
  and what it does to the browser: the requests issued so far, the lines written with
  \<open>console.error\<close>, the interval timers registered and not yet cleared, and the page's
  clock in milliseconds.
\<close>

record app =
  tasks :: "json list"
  newTask :: "string \<times> string"
  loading :: bool
  sent :: "request list"
  console :: "string list"
  timers :: "timer list"
  clock :: nat

definition initial_app :: app where
  "initial_app = \<lparr> tasks = [], newTask = ([], []), loading = False, sent = [],
     console = [], timers = [], clock = 0 \<rparr>"

definition fetchTasks_call :: "app \<Rightarrow> app" where
  "fetchTasks_call c = c\<lparr>sent := sent c @ [GET_tasks]\<rparr>"

definition fetchServerInfo_call :: "app \<Rightarrow> app" where
  "fetchServerInfo_call c = c\<lparr>sent := sent c @ [GET_server_info]\<rparr>"

subsection \<open>createTask and toggleTask\<close>

text \<open>
  \<^verbatim>\<open>
  const createTask = async (e) => {
    e.preventDefault();
    setLoading(true);
    try {
      const response = await fetch(`${API_URL}/api/tasks`, {
        method: 'POST',
        headers: { 'Content-Type': 'application/json' },
        body: JSON.stringify(newTask),
      });
      const data = await response.json();
      setTasks([data, ...tasks]);
      setNewTask({ title: '', description: '' });
      fetchServerInfo();
    } catch (error) {
      console.error('Error creating task:', error);
    }
    setLoading(false);
  };
  \<close>
  The handler is a function of the outcome of its two awaits.
\<close>

definition createTask_request :: "app \<Rightarrow> request" where
  "createTask_request c =
     POST_tasks (empty_body\<lparr> b_title := Given (fst (newTask c)),
                             b_description := Given (snd (newTask c)) \<rparr>)"

definition createTask :: "fetched \<Rightarrow> app \<Rightarrow> app" where
  "createTask r c =
     (let c1 = c\<lparr>loading := True, sent := sent c @ [createTask_request c]\<rparr>;
          c2 = (case r of
                  Response status (Some data) \<Rightarrow>
                    fetchServerInfo_call (c1\<lparr>tasks := data # tasks c, newTask := ([], [])\<rparr>)
                | _ \<Rightarrow> c1\<lparr>console := console c1 @ [''Error creating task:'']\<rparr>)
      in c2\<lparr>loading := False\<rparr>)"

text \<open>
  \<^verbatim>\<open>
  const toggleTask = async (id, completed) => {
    try {
      const response = await fetch(`${API_URL}/api/tasks/${id}`, {
        method: 'PUT',
        headers: { 'Content-Type': 'application/json' },
        body: JSON.stringify({ completed: !completed }),
      });
      const data = await response.json();
      setTasks(tasks.map(task => task._id === id ? data : task));
    } catch (error) {
      console.error('Error updating task:', error);
    }
  };
  \<close>
  \<open>tasks.map\<close> throws inside the \<open>try\<close> when an entry is \<open>null\<close>.
\<close>

fun replace_matching :: "jsval \<Rightarrow> json \<Rightarrow> json list \<Rightarrow> json list option" where
  "replace_matching i data [] = Some []"
| "replace_matching i data (task # rest) =
     (case get_prop ''_id'' task of
        None \<Rightarrow> None
      | Some v \<Rightarrow>
          (case replace_matching i data rest of
             None \<Rightarrow> None
           | Some rest' \<Rightarrow> Some ((if strict_eq v i then data else task) # rest')))"

definition toggleTask_request :: "jsval \<Rightarrow> jsval \<Rightarrow> request" where
  "toggleTask_request i c = PUT_task i (empty_body\<lparr>b_completed := Given (js_not c)\<rparr>)"

definition toggleTask :: "jsval \<Rightarrow> jsval \<Rightarrow> fetched \<Rightarrow> app \<Rightarrow> app" where
  "toggleTask i cmpl r c =
     (let c1 = c\<lparr>sent := sent c @ [toggleTask_request i cmpl]\<rparr>
      in case r of
           Response status (Some data) \<Rightarrow>
             (case replace_matching i data (tasks c) of
                Some ts \<Rightarrow> c1\<lparr>tasks := ts\<rparr>
              | None \<Rightarrow> c1\<lparr>console := console c1 @ [''Error updating task:'']\<rparr>)
         | _ \<Rightarrow> c1\<lparr>console := console c1 @ [''Error updating task:'']\<rparr>)"

subsection \<open>The mount effect and its timer\<close>

text \<open>
  \<^verbatim>\<open>
  useEffect(() => {
    fetchTasks();
    fetchServerInfo();
    const interval = setInterval(fetchServerInfo, 10000);
    return () => clearInterval(interval);
  }, []);
  \<close>
  With the empty dependency list the effect body runs once, when the view is mounted,
  and the function it returns runs once, when the view is torn down. \<open>setInterval\<close>
  registers a timer that is first due one period from now; \<open>clearInterval\<close> removes it.
\<close>

definition setInterval :: "callback \<Rightarrow> nat \<Rightarrow> app \<Rightarrow> nat \<times> app" where
  "setInterval cb ms c =
     (let h = Suc (fold max (map timer_id (timers c)) 0)
      in (h, c\<lparr>timers := timers c @
                 [\<lparr>timer_id = h, period = ms, due = clock c + ms, run = cb\<rparr>]\<rparr>))"

definition clearInterval :: "nat \<Rightarrow> app \<Rightarrow> app" where
  "clearInterval h c = c\<lparr>timers := filter (\<lambda>t. timer_id t \<noteq> h) (timers c)\<rparr>"

definition mount :: "app \<Rightarrow> nat \<times> app" where
  "mount c = setInterval FetchServerInfo 10000 (fetchServerInfo_call (fetchTasks_call c))"

definition unmount :: "nat \<Rightarrow> app \<Rightarrow> app" where
  "unmount interval c = clearInterval interval c"

text \<open>
  The passing of time, one millisecond at a step: every registered timer that falls due
  runs its callback and is due again one period later.
\<close>

fun run_callback :: "callback \<Rightarrow> app \<Rightarrow> app" where
  "run_callback FetchServerInfo c = fetchServerInfo_call c"

definition fire_due :: "app \<Rightarrow> app" where
  "fire_due c =
     (fold (\<lambda>t. run_callback (run t)) (filter (\<lambda>t. due t = clock c) (timers c)) c)
       \<lparr>timers := map (\<lambda>t. if due t = clock c then t\<lparr>due := due t + period t\<rparr> else t)
                    (timers c)\<rparr>"

definition tick :: "app \<Rightarrow> app" where
  "tick c = fire_due (c\<lparr>clock := Suc (clock c)\<rparr>)"

fun elapse :: "nat \<Rightarrow> app \<Rightarrow> app" where
  "elapse 0 c = c"
| "elapse (Suc n) c = elapse n (tick c)"

section \<open>Client and service together\<close>







section \<open>The provisioning script (aws-setup.sh)\<close>

text \<open>
  \<^verbatim>\<open>
  TARGET_GROUP_ARN=$(aws elbv2 create-target-group
    --name backend-tg
    --protocol HTTP
    --port 5000
    --vpc-id $VPC_ID
    --health-check-enabled
    --health-check-protocol HTTP
    --health-check-path /health
    --health-check-interval-seconds 30
    --health-check-timeout-seconds 5
    --healthy-threshold-count 2
    --unhealthy-threshold-count 3
    --region $AWS_REGION
    --query 'TargetGroups[0].TargetGroupArn'
    --output text)
  \<close>
  (the script continues each line with a backslash). The command as its list of words,
  each a literal of the script or a reference to a shell variable.
\<close>

datatype shell_word = Lit string | Var string

definition create_target_group :: "shell_word list" where
  "create_target_group =
     [Lit ''aws'', Lit ''elbv2'', Lit ''create-target-group'',
      Lit ''--name'', Lit ''backend-tg'',
      Lit ''--protocol'', Lit ''HTTP'',
      Lit ''--port'', Lit ''5000'',
      Lit ''--vpc-id'', Var ''VPC_ID'',
      Lit ''--health-check-enabled'',
      Lit ''--health-check-protocol'', Lit ''HTTP'',
      Lit ''--health-check-path'', Lit ''/health'',
      Lit ''--health-check-interval-seconds'', Lit ''30'',
      Lit ''--health-check-timeout-seconds'', Lit ''5'',
      Lit ''--healthy-threshold-count'', Lit ''2'',
      Lit ''--unhealthy-threshold-count'', Lit ''3'',
      Lit ''--region'', Var ''AWS_REGION'',
      Lit ''--query'', Lit ''TargetGroups[0].TargetGroupArn'',
      Lit ''--output'', Lit ''text'']"

text \<open>The value given to an option: the word that follows its first occurrence.\<close>

fun option_value :: "string \<Rightarrow> shell_word list \<Rightarrow> shell_word option" where
  "option_value opt (w # v # rest) =
     (if w = Lit opt then Some v else option_value opt (v # rest))"
| "option_value opt _ = None"

section \<open>Auxiliary notions and sample data\<close>

text \<open>Whether an entry of the client's list is the one \<open>toggleTask\<close> replaces.\<close>

definition has_id :: "jsval \<Rightarrow> json \<Rightarrow> bool" where
  "has_id i task = (case get_prop ''_id'' task of Some v \<Rightarrow> strict_eq v i | None \<Rightarrow> False)"

definition sample_env :: env where
  "sample_env = \<lparr> hostname = ''ip-10-0-3-17'',
     interfaces =
       [(''lo'', [\<lparr>family = ''IPv4'', internal = True, address = ''127.0.0.1''\<rparr>]),
        (''eth0'', [\<lparr>family = ''IPv6'', internal = False, address = ''fe80::1''\<rparr>,
                    \<lparr>family = ''IPv4'', internal = False, address = ''10.0.3.17''\<rparr>])],
     now = 1000, new_id = 4 \<rparr>"

definition sample_task :: "oid \<Rightarrow> bool \<Rightarrow> int field \<Rightarrow> task" where
  "sample_task i c d = \<lparr> task_id = i, title = Val ''Buy milk'', description = Unset,
     completed = Val c, createdAt = d, serverHostname = Val ''ip-10-0-3-17'',
     serverIp = Val ''10.0.3.17'' \<rparr>"

definition sample_store :: store where
  "sample_store = \<lparr> docs = [sample_task 1 False (Val 10), sample_task 2 True (Val 30),
     sample_task 3 False Null], fault = None \<rparr>"

definition failing_store :: store where
  "failing_store = sample_store\<lparr>fault := Some ''connection lost''\<rparr>"



section \<open>Properties of the service\<close>

subsection \<open>Lemmas on the store operations\<close>

lemma mset_insert_desc: "mset (insert_desc x ts) = add_mset x (mset ts)"
  by (induction ts) auto

lemma mset_sort_desc: "mset (sort_desc ts) = mset ts"
  unfolding sort_desc_def by (induction ts) (auto simp: mset_insert_desc)

lemma set_sort_desc: "set (sort_desc ts) = set ts"
  using mset_sort_desc[of ts] by (metis set_mset_mset)

lemma set_insert_desc: "set (insert_desc x ts) = insert x (set ts)"
  by (induction ts) auto

lemma key_ge_total: "key_ge a b \<or> key_ge b a"
  by (cases a; cases b) auto

lemma key_ge_trans: "key_ge a b \<Longrightarrow> key_ge b c \<Longrightarrow> key_ge a c"
  by (cases a; cases b; cases c) auto

lemma newer_eq_total: "\<not> newer_eq a b \<Longrightarrow> newer_eq b a"
  unfolding newer_eq_def using key_ge_total by blast

lemma newer_eq_trans: "newer_eq a b \<Longrightarrow> newer_eq b c \<Longrightarrow> newer_eq a c"
  unfolding newer_eq_def using key_ge_trans by blast

lemma sorted_insert_desc:
  "sorted_wrt newer_eq ts \<Longrightarrow> sorted_wrt newer_eq (insert_desc x ts)"
proof (induction ts)
  case Nil
  show ?case by simp
next
  case (Cons y ys)
  show ?case
  proof (cases "newer_eq x y")
    case True
    have "\<forall>z\<in>set ys. newer_eq x z"
      using Cons.prems True newer_eq_trans by auto
    with True Cons.prems show ?thesis by simp
  next
    case False
    then have "newer_eq y x" by (rule newer_eq_total)
    with False Cons show ?thesis by (auto simp: set_insert_desc)
  qed
qed

lemma sorted_sort_desc: "sorted_wrt newer_eq (sort_desc ts)"
  unfolding sort_desc_def by (induction ts) (auto simp: sorted_insert_desc)

lemma newer_eq_dates:
  "newer_eq x y \<Longrightarrow> createdAt x = Val a \<Longrightarrow> createdAt y = Val b \<Longrightarrow> b \<le> a"
  by (simp add: newer_eq_def)

lemma hydrate_id: "task_id (hydrate e t) = task_id t"
  by (simp add: hydrate_def)

lemma hydrate_complete: "completed t \<noteq> Unset \<Longrightarrow> createdAt t \<noteq> Unset \<Longrightarrow> hydrate e t = t"
  by (cases "completed t"; cases "createdAt t") (simp_all add: hydrate_def)

lemma find_None_iff: "find (\<lambda>t. task_id t = i) ts = None \<longleftrightarrow> i \<notin> task_id ` set ts"
  by (induction ts) auto

lemma remove_first_absent: "i \<notin> task_id ` set ts \<Longrightarrow> remove_first i ts = ts"
  by (induction ts) auto

lemma set_remove_first:
  "distinct (map task_id ts) \<Longrightarrow> set (remove_first i ts) = {t \<in> set ts. task_id t \<noteq> i}"
  by (induction ts) (auto simp: rev_image_eqI)

text \<open>
  Identifiers are unique in the store: no handler ever makes two stored records share
  one.
\<close>

lemma ids_update_first: "map task_id (update_first i (apply_update b) ts) = map task_id ts"
  by (induction ts) (simp_all add: apply_update_def)

lemma set_remove_first_subset: "set (remove_first i ts) \<subseteq> set ts"
  by (induction ts) auto

lemma ids_remove_first: "distinct (map task_id ts) \<Longrightarrow> distinct (map task_id (remove_first i ts))"
  using set_remove_first_subset[of i] by (induction ts) (auto simp: image_iff)

lemma handlers_keep_ids_distinct:
  assumes "distinct (map task_id (docs db))"
  shows "distinct (map task_id (docs (snd (post_api_tasks e b db))))"
    and "distinct (map task_id (docs (snd (put_api_tasks_id e p b db))))"
    and "distinct (map task_id (docs (snd (delete_api_tasks_id e p db))))"
  using assms
  by (auto simp: post_api_tasks_def save_def new_Task_def Let_def put_api_tasks_id_def
      findByIdAndUpdate_def delete_api_tasks_id_def findByIdAndDelete_def ids_update_first
      ids_remove_first split: option.splits id_param.splits list.splits)

lemma scan_ifaces_nonempty:
  "scan_ifaces is = Some a \<Longrightarrow> \<forall>i\<in>set is. address i \<noteq> [] \<Longrightarrow> a \<noteq> []"
  by (induction "is") (auto split: if_splits)

lemma scan_names_nonempty:
  "scan_names ns = Some a \<Longrightarrow> \<forall>(n, is)\<in>set ns. \<forall>i\<in>set is. address i \<noteq> [] \<Longrightarrow> a \<noteq> []"
  by (induction ns) (auto split: option.splits dest: scan_ifaces_nonempty)

lemma getServerIp_nonempty:
  "\<forall>(n, is)\<in>set (interfaces e). \<forall>i\<in>set is. address i \<noteq> [] \<Longrightarrow> getServerIp e \<noteq> []"
  unfolding getServerIp_def by (auto split: option.splits dest: scan_names_nonempty)

lemma length_oid_hex: "length (oid_hex x) = 24"
  by (simp add: oid_hex_def)

lemma getServerIp_sample: "getServerIp sample_env = ''10.0.3.17''"
  by (simp add: getServerIp_def sample_env_def)

subsection \<open>Listing\<close>

text \<open>
  C7 (as stated) fails: in a store of two records dated 10 and 30, an update removes
  \<open>createdAt\<close> from the second. The listing then puts that record after the one dated
  10 and reports it with the time of the listing, 1000, as its \<open>createdAt\<close>: the reply is
  not in descending order of \<open>createdAt\<close>, and the record it reports is not the stored
  one.
\<close>

theorem list_not_descending_counterexample:
  "get_api_tasks sample_env
     (snd (put_api_tasks_id sample_env (WellFormed 2) (empty_body\<lparr>b_createdAt := ToUnset\<rparr>)
             \<lparr>docs = [sample_task 1 False (Val 10), sample_task 2 True (Val 30)],
               fault = None\<rparr>)) =
   (200, TaskArray [sample_task 1 False (Val 10), sample_task 2 True (Val 1000)]) \<and>
   docs (snd (put_api_tasks_id sample_env (WellFormed 2) (empty_body\<lparr>b_createdAt := ToUnset\<rparr>)
             \<lparr>docs = [sample_task 1 False (Val 10), sample_task 2 True (Val 30)],
               fault = None\<rparr>)) =
   [sample_task 1 False (Val 10), sample_task 2 True Unset]"
  by (simp add: put_api_tasks_id_def findByIdAndUpdate_def bad_paths_def empty_body_def
      sample_task_def apply_update_def get_api_tasks_def find_sorted_def
      sort_desc_def newer_eq_def hydrate_def sample_env_def)

text \<open>
  C7 (amended). Whatever the store holds, GET /api/tasks answers 200 with all the Task
  records (each exactly as often as it is stored), ordered by the stored \<open>createdAt\<close>
  descending (of two records with stored dates, the one listed first is not older;
  records without a date are last), each record reported with the schema defaults in
  place of the paths it lacks: \<open>completed\<close> false, \<open>createdAt\<close> the time of the listing.
  When every stored record has both paths, the reply is the stored records themselves.
  When the store fails, it answers 500 with the error of the store in the \<open>error\<close> body.
\<close>

theorem list_tasks_sorted:
  "(fault db = None \<longrightarrow>
      (\<exists>ts. get_api_tasks e db = (200, TaskArray (map (hydrate e) ts)) \<and>
            mset ts = mset (docs db) \<and> sorted_wrt newer_eq ts \<and>
            (\<forall>i j a b. i < j \<and> j < length ts \<and>
                createdAt (ts ! i) = Val a \<and> createdAt (ts ! j) = Val b \<longrightarrow> b \<le> a) \<and>
            ((\<forall>t\<in>set (docs db). completed t \<noteq> Unset \<and> createdAt t \<noteq> Unset) \<longrightarrow>
                map (hydrate e) ts = ts))) \<and>
   (\<forall>t. hydrate e t =
          t\<lparr> completed := (if completed t = Unset then Val False else completed t),
             createdAt := (if createdAt t = Unset then Val (now e) else createdAt t) \<rparr>) \<and>
   (\<forall>m. fault db = Some m \<longrightarrow> get_api_tasks e db = (500, Error (StoreError m)))"
proof -
  have dates: "\<forall>i j a b. i < j \<and> j < length (sort_desc (docs db)) \<and>
          createdAt (sort_desc (docs db) ! i) = Val a \<and>
          createdAt (sort_desc (docs db) ! j) = Val b \<longrightarrow> b \<le> a"
    using sorted_sort_desc[of "docs db"] newer_eq_dates
    unfolding sorted_wrt_iff_nth_less by blast
  have same: "(\<forall>t\<in>set (docs db). completed t \<noteq> Unset \<and> createdAt t \<noteq> Unset) \<longrightarrow>
      map (hydrate e) (sort_desc (docs db)) = sort_desc (docs db)"
    by (auto intro!: map_idI simp: set_sort_desc hydrate_complete)
  have up: "fault db = None \<longrightarrow> get_api_tasks e db =
      (200, TaskArray (map (hydrate e) (sort_desc (docs db))))"
    by (simp add: get_api_tasks_def find_sorted_def)
  have down: "\<forall>m. fault db = Some m \<longrightarrow> get_api_tasks e db = (500, Error (StoreError m))"
    by (simp add: get_api_tasks_def find_sorted_def)
  have hyd: "\<forall>t. hydrate e t =
          t\<lparr> completed := (if completed t = Unset then Val False else completed t),
             createdAt := (if createdAt t = Unset then Val (now e) else createdAt t) \<rparr>"
    by (simp add: hydrate_def split: field.splits)
  show ?thesis
    using dates same up down hyd mset_sort_desc[of "docs db"] sorted_sort_desc[of "docs db"]
    by blast
qed

theorem list_tasks_sorted_witness:
  "fault sample_store = None \<and>
   list_all (\<lambda>t. completed t \<noteq> Unset \<and> createdAt t \<noteq> Unset) (docs sample_store) \<and>
   get_api_tasks sample_env sample_store =
     (200, TaskArray [sample_task 2 True (Val 30), sample_task 1 False (Val 10),
                      sample_task 3 False Null]) \<and>
   sorted_wrt newer_eq [sample_task 2 True (Val 30), sample_task 1 False (Val 10),
                        sample_task 3 False Null] \<and>
   fault failing_store = Some ''connection lost'' \<and>
   get_api_tasks sample_env failing_store = (500, Error (StoreError ''connection lost''))"
proof -
  have run: "get_api_tasks sample_env sample_store =
     (200, TaskArray [sample_task 2 True (Val 30), sample_task 1 False (Val 10),
                      sample_task 3 False Null])"
    by (simp add: get_api_tasks_def find_sorted_def sort_desc_def sample_store_def
        sample_task_def newer_eq_def hydrate_def)
  have up: "fault sample_store = None" by (simp add: sample_store_def)
  have full: "list_all (\<lambda>t. completed t \<noteq> Unset \<and> createdAt t \<noteq> Unset) (docs sample_store)"
    by (simp add: sample_store_def sample_task_def)
  have down: "fault failing_store = Some ''connection lost''" by (simp add: failing_store_def)
  have srt: "sorted_wrt newer_eq [sample_task 2 True (Val 30), sample_task 1 False (Val 10),
                        sample_task 3 False Null]"
    by (simp add: newer_eq_def sample_task_def)
  have fail: "get_api_tasks sample_env failing_store = (500, Error (StoreError ''connection lost''))"
    using list_tasks_sorted[of failing_store sample_env] down by blast
  have perm: "\<exists>ts. get_api_tasks sample_env sample_store =
        (200, TaskArray (map (hydrate sample_env) ts)) \<and> mset ts = mset (docs sample_store)"
    using list_tasks_sorted[of sample_store sample_env] up by blast
  show ?thesis using run up full down srt fail perm by blast
qed

subsection \<open>Creating\<close>

text \<open>
  C5. A create request whose body has no title (the key is missing or named only under
  \<open>$unset\<close>, or its value is \<open>null\<close> or the empty string) is answered 400 with a
  validation error that names \<open>title\<close>, and the store is left exactly as it was.
\<close>

theorem create_without_title:
  assumes "b_title req_body = Omitted \<or> b_title req_body = GivenNull \<or>
           b_title req_body = Given [] \<or> b_title req_body = ToUnset"
  shows "\<exists>paths. post_api_tasks e req_body db = ((400, Error (ValidationError paths)), db) \<and>
           ''title'' \<in> set paths"
  using assms
  by (auto simp: post_api_tasks_def new_Task_def save_def invalid_paths_def bad_paths_def Let_def)

theorem create_without_title_witness:
  "b_title (empty_body\<lparr>b_description := Given ''no title''\<rparr>) = Omitted \<and>
   post_api_tasks sample_env (empty_body\<lparr>b_description := Given ''no title''\<rparr>) sample_store =
     ((400, Error (ValidationError [''title''])), sample_store)"
proof -
  have h: "b_title (empty_body\<lparr>b_description := Given ''no title''\<rparr>) = Omitted"
    by (simp add: empty_body_def)
  have "post_api_tasks sample_env (empty_body\<lparr>b_description := Given ''no title''\<rparr>) sample_store =
     ((400, Error (ValidationError [''title''])), sample_store)"
    by (simp add: post_api_tasks_def new_Task_def save_def invalid_paths_def bad_paths_def
        empty_body_def)
  with h create_without_title[of "empty_body\<lparr>b_description := Given ''no title''\<rparr>"
      sample_env sample_store]
  show ?thesis by simp
qed

text \<open>
  C8. A create request that carries only a title (a non-empty string), handled while the
  store answers and the generated identifier is unused, is answered 201 with the record
  that was appended to the store: \<open>completed\<close> is false, the identifier is the generated
  one and its text is not empty, \<open>createdAt\<close> is the server's clock reading (so not
  earlier than any time at or before it, such as the time the request was issued), and
  \<open>serverHostname\<close> and \<open>serverIp\<close> are non-empty when the host name and the interface
  addresses of the machine are.
\<close>

theorem create_title_only:
  assumes "s \<noteq> []" and "fault db = None" and "new_id e \<notin> task_id ` set (docs db)"
    and "hostname e \<noteq> []"
    and "\<forall>(n, is)\<in>set (interfaces e). \<forall>i\<in>set is. address i \<noteq> []"
    and "issued \<le> now e"
  shows "\<exists>t. post_api_tasks e (empty_body\<lparr>b_title := Given s\<rparr>) db =
               ((201, TaskJson t), db\<lparr>docs := docs db @ [t]\<rparr>) \<and>
             title t = Val s \<and> completed t = Val False \<and>
             task_id t = new_id e \<and> oid_hex (task_id t) \<noteq> [] \<and>
             (\<exists>c. createdAt t = Val c \<and> issued \<le> c) \<and>
             (\<exists>h. serverHostname t = Val h \<and> h \<noteq> []) \<and>
             (\<exists>a. serverIp t = Val a \<and> a \<noteq> [])"
proof -
  have ip: "getServerIp e \<noteq> []" using assms(5) by (rule getServerIp_nonempty)
  have hex: "oid_hex (new_id e) \<noteq> []" using length_oid_hex[of "new_id e"] by auto
  show ?thesis
    using assms(1,2,3,4,6) ip hex
    by (simp add: post_api_tasks_def new_Task_def save_def invalid_paths_def bad_paths_def
        empty_body_def)
qed

theorem create_title_only_witness:
  "\<exists>t. post_api_tasks sample_env (empty_body\<lparr>b_title := Given ''Buy milk''\<rparr>) sample_store =
         ((201, TaskJson t), sample_store\<lparr>docs := docs sample_store @ [t]\<rparr>) \<and>
       title t = Val ''Buy milk'' \<and> completed t = Val False \<and> task_id t = 4 \<and>
       createdAt t = Val 1000 \<and> serverHostname t = Val ''ip-10-0-3-17'' \<and>
       serverIp t = Val ''10.0.3.17''"
proof -
  have h1: "''Buy milk'' \<noteq> []" by simp
  have h2: "fault sample_store = None" by (simp add: sample_store_def)
  have h3: "new_id sample_env \<notin> task_id ` set (docs sample_store)"
    by (simp add: sample_env_def sample_store_def sample_task_def)
  have h4: "hostname sample_env \<noteq> []" by (simp add: sample_env_def)
  have h5: "\<forall>(n, is)\<in>set (interfaces sample_env). \<forall>i\<in>set is. address i \<noteq> []"
    by (simp add: sample_env_def)
  have h6: "(990::int) \<le> now sample_env" by (simp add: sample_env_def)
  from create_title_only[OF h1 h2 h3 h4 h5 h6]
  obtain t where t: "post_api_tasks sample_env (empty_body\<lparr>b_title := Given ''Buy milk''\<rparr>)
        sample_store = ((201, TaskJson t), sample_store\<lparr>docs := docs sample_store @ [t]\<rparr>)"
      "title t = Val ''Buy milk''" "completed t = Val False" "task_id t = new_id sample_env"
      "\<exists>c. createdAt t = Val c \<and> 990 \<le> c" "\<exists>h. serverHostname t = Val h \<and> h \<noteq> []"
      "\<exists>a. serverIp t = Val a \<and> a \<noteq> []"
    by blast
  have run: "fst (post_api_tasks sample_env (empty_body\<lparr>b_title := Given ''Buy milk''\<rparr>) sample_store) =
      (201, TaskJson \<lparr> task_id = 4, title = Val ''Buy milk'', description = Unset,
         completed = Val False, createdAt = Val 1000, serverHostname = Val ''ip-10-0-3-17'',
         serverIp = Val ''10.0.3.17'' \<rparr>)"
    using h2 h3
    by (simp add: post_api_tasks_def new_Task_def save_def invalid_paths_def bad_paths_def
        empty_body_def getServerIp_sample) (simp add: sample_env_def)
  with t(1) have "t = \<lparr> task_id = 4, title = Val ''Buy milk'', description = Unset,
         completed = Val False, createdAt = Val 1000, serverHostname = Val ''ip-10-0-3-17'',
         serverIp = Val ''10.0.3.17'' \<rparr>" by simp
  with t(1) show ?thesis by auto
qed

text \<open>
  C2 (as stated) fails: a create request that supplies \<open>createdAt\<close> has that value stored,
  not the server's clock reading (here 5 instead of 1000).
\<close>

theorem create_createdAt_counterexample:
  "post_api_tasks sample_env (empty_body\<lparr>b_title := Given ''a'', b_createdAt := Given 5\<rparr>)
      \<lparr>docs = [], fault = None\<rparr> =
   ((201, TaskJson \<lparr> task_id = 4, title = Val ''a'', description = Unset, completed = Val False,
        createdAt = Val 5, serverHostname = Val ''ip-10-0-3-17'', serverIp = Val ''10.0.3.17'' \<rparr>),
    \<lparr>docs = [\<lparr> task_id = 4, title = Val ''a'', description = Unset, completed = Val False,
        createdAt = Val 5, serverHostname = Val ''ip-10-0-3-17'', serverIp = Val ''10.0.3.17'' \<rparr>],
      fault = None\<rparr>) \<and>
   now sample_env = 1000"
  by (simp add: post_api_tasks_def new_Task_def save_def invalid_paths_def bad_paths_def
      empty_body_def sample_env_def getServerIp_def)

text \<open>
  C2 (amended). Whenever a create request succeeds, the record appended to the store has
  the handling process's host name and address as \<open>serverHostname\<close> and \<open>serverIp\<close>,
  whatever the body supplied for them; its \<open>createdAt\<close> is the server's clock reading
  when the body supplies none (the key is missing or named only under \<open>$unset\<close>), and
  otherwise it is what the body supplied (a date, or \<open>null\<close>).
\<close>

theorem create_server_fields:
  assumes "post_api_tasks e req_body db = ((201, TaskJson t), db')"
  shows "docs db' = docs db @ [t] \<and>
         serverHostname t = Val (hostname e) \<and> serverIp t = Val (getServerIp e) \<and>
         (b_createdAt req_body = Omitted \<longrightarrow> createdAt t = Val (now e)) \<and>
         (\<forall>v. b_createdAt req_body = Given v \<longrightarrow> createdAt t = Val v) \<and>
         (b_createdAt req_body = GivenNull \<longrightarrow> createdAt t = Null) \<and>
         (b_createdAt req_body = ToUnset \<longrightarrow> createdAt t = Val (now e)) \<and>
         b_createdAt req_body \<noteq> Uncastable"
  using assms
  by (auto simp: post_api_tasks_def new_Task_def save_def Let_def invalid_paths_def bad_paths_def
      split: if_splits option.splits input.splits)

theorem create_server_fields_witness:
  "\<exists>t db'. post_api_tasks sample_env
       (empty_body\<lparr>b_title := Given ''a'', b_serverHostname := Given ''forged'',
          b_serverIp := Given ''6.6.6.6''\<rparr>) sample_store = ((201, TaskJson t), db') \<and>
     docs db' = docs sample_store @ [t] \<and>
     serverHostname t = Val ''ip-10-0-3-17'' \<and> serverIp t = Val ''10.0.3.17'' \<and>
     createdAt t = Val 1000"
proof -
  define b where "b = empty_body\<lparr>b_title := Given ''a'', b_serverHostname := Given ''forged'',
          b_serverIp := Given ''6.6.6.6''\<rparr>"
  define t where "t = \<lparr> task_id = 4, title = Val ''a'', description = Unset,
      completed = Val False, createdAt = Val 1000, serverHostname = Val ''ip-10-0-3-17'',
      serverIp = Val ''10.0.3.17'' \<rparr>"
  have h: "post_api_tasks sample_env b sample_store =
      ((201, TaskJson t), sample_store\<lparr>docs := docs sample_store @ [t]\<rparr>)"
    by (simp add: post_api_tasks_def new_Task_def save_def invalid_paths_def bad_paths_def
        empty_body_def getServerIp_sample b_def t_def)
       (simp add: sample_env_def sample_store_def sample_task_def)
  have o: "b_createdAt b = Omitted" by (simp add: b_def empty_body_def)
  have "serverHostname t = Val ''ip-10-0-3-17'' \<and> serverIp t = Val ''10.0.3.17'' \<and>
        createdAt t = Val 1000 \<and>
        docs (sample_store\<lparr>docs := docs sample_store @ [t]\<rparr>) = docs sample_store @ [t]"
    using create_server_fields[OF h] o
    by (simp add: getServerIp_sample) (simp add: sample_env_def)
  with h show ?thesis unfolding b_def by blast
qed

subsection \<open>Updating\<close>

lemma bad_paths_empty:
  "bad_paths b = [] \<longleftrightarrow>
     b_title b \<noteq> Uncastable \<and> b_description b \<noteq> Uncastable \<and> b_completed b \<noteq> Uncastable \<and>
     b_createdAt b \<noteq> Uncastable \<and> b_serverHostname b \<noteq> Uncastable \<and> b_serverIp b \<noteq> Uncastable"
  by (simp add: bad_paths_def)

text \<open>
  C4 (as stated) fails: an update whose identifier is well-formed and matches no stored
  record, but whose body gives \<open>completed\<close> a value that does not cast, is answered 400
  with the cast error, not 200 with an empty result.
\<close>

theorem update_uncastable_body_counterexample:
  "9 \<notin> task_id ` set (docs sample_store) \<and> fault sample_store = None \<and>
   put_api_tasks_id sample_env (WellFormed 9) (empty_body\<lparr>b_completed := Uncastable\<rparr>)
     sample_store =
     ((400, Error (BodyCastError [''completed''])), sample_store)"
  by (simp add: put_api_tasks_id_def findByIdAndUpdate_def bad_paths_def empty_body_def
      sample_store_def sample_task_def)

text \<open>
  C4 (amended). An update whose identifier is well-formed but matches no stored record,
  and whose body casts (no path of it is uncastable), is answered 200 with the body
  \<open>null\<close> while the store answers, and nothing is stored or changed. A malformed
  identifier is answered 400 with the cast error, a body that does not cast is answered
  400 with its cast error, and a failure of the store is answered 400 with the store's
  error; the store is unchanged in each case.
\<close>

theorem update_unknown_or_failing:
  "(fault db = None \<and> bad_paths b = [] \<and> i \<notin> task_id ` set (docs db) \<longrightarrow>
      put_api_tasks_id e (WellFormed i) b db = ((200, NullJson), db)) \<and>
   put_api_tasks_id e (Malformed raw) b db = ((400, Error (CastError ''_id'')), db) \<and>
   (bad_paths b \<noteq> [] \<longrightarrow>
      put_api_tasks_id e (WellFormed i) b db = ((400, Error (BodyCastError (bad_paths b))), db)) \<and>
   (fault db = Some m \<and> bad_paths b = [] \<longrightarrow>
      put_api_tasks_id e (WellFormed i) b db = ((400, Error (StoreError m)), db)) \<and>
   (bad_paths b = [] \<longleftrightarrow>
      b_title b \<noteq> Uncastable \<and> b_description b \<noteq> Uncastable \<and> b_completed b \<noteq> Uncastable \<and>
      b_createdAt b \<noteq> Uncastable \<and> b_serverHostname b \<noteq> Uncastable \<and>
      b_serverIp b \<noteq> Uncastable)"
proof -
  have a: "fault db = None \<and> bad_paths b = [] \<and> i \<notin> task_id ` set (docs db) \<longrightarrow>
      put_api_tasks_id e (WellFormed i) b db = ((200, NullJson), db)"
    by (auto simp: put_api_tasks_id_def findByIdAndUpdate_def find_None_iff[THEN iffD2])
  have b: "put_api_tasks_id e (Malformed raw) b db = ((400, Error (CastError ''_id'')), db)"
    by (simp add: put_api_tasks_id_def findByIdAndUpdate_def)
  have c: "bad_paths b \<noteq> [] \<longrightarrow>
      put_api_tasks_id e (WellFormed i) b db = ((400, Error (BodyCastError (bad_paths b))), db)"
    by (simp add: put_api_tasks_id_def findByIdAndUpdate_def)
  have d: "fault db = Some m \<and> bad_paths b = [] \<longrightarrow>
      put_api_tasks_id e (WellFormed i) b db = ((400, Error (StoreError m)), db)"
    by (simp add: put_api_tasks_id_def findByIdAndUpdate_def)
  show ?thesis using a b c d bad_paths_empty[of b] by blast
qed

theorem update_unknown_or_failing_witness:
  "fault sample_store = None \<and> bad_paths (empty_body\<lparr>b_completed := Given True\<rparr>) = [] \<and>
   9 \<notin> task_id ` set (docs sample_store) \<and>
   put_api_tasks_id sample_env (WellFormed 9) (empty_body\<lparr>b_completed := Given True\<rparr>)
     sample_store = ((200, NullJson), sample_store) \<and>
   bad_paths (empty_body\<lparr>b_createdAt := Uncastable\<rparr>) \<noteq> [] \<and>
   put_api_tasks_id sample_env (WellFormed 9) (empty_body\<lparr>b_createdAt := Uncastable\<rparr>)
     sample_store = ((400, Error (BodyCastError [''createdAt''])), sample_store) \<and>
   fault failing_store = Some ''connection lost'' \<and>
   put_api_tasks_id sample_env (WellFormed 9) (empty_body\<lparr>b_completed := Given True\<rparr>)
     failing_store = ((400, Error (StoreError ''connection lost'')), failing_store)"
proof -
  have h1: "fault sample_store = None" by (simp add: sample_store_def)
  have h2: "bad_paths (empty_body\<lparr>b_completed := Given True\<rparr>) = []"
    by (simp add: bad_paths_def empty_body_def)
  have h3: "9 \<notin> task_id ` set (docs sample_store)"
    by (simp add: sample_store_def sample_task_def)
  have h4: "fault failing_store = Some ''connection lost''" by (simp add: failing_store_def)
  have h5: "bad_paths (empty_body\<lparr>b_createdAt := Uncastable\<rparr>) = [''createdAt'']"
    by (simp add: bad_paths_def empty_body_def)
  show ?thesis
    using h1 h2 h3 h4 h5
      update_unknown_or_failing[of sample_store "empty_body\<lparr>b_completed := Given True\<rparr>" 9
        sample_env]
      update_unknown_or_failing[of sample_store "empty_body\<lparr>b_createdAt := Uncastable\<rparr>" 9
        sample_env]
      update_unknown_or_failing[of failing_store "empty_body\<lparr>b_completed := Given True\<rparr>" 9
        sample_env _ "''connection lost''"]
    by simp
qed

subsection \<open>Deleting\<close>

text \<open>
  C1 (as stated) fails: deleting a well-formed identifier that matches no stored record is
  answered 200 with the confirmation message, not with an error status.
\<close>

theorem delete_unknown_id_counterexample:
  "delete_api_tasks_id sample_env (WellFormed 7) \<lparr>docs = [], fault = None\<rparr> =
     ((200, Message ''Task deleted''), \<lparr>docs = [], fault = None\<rparr>)"
  by (simp add: delete_api_tasks_id_def findByIdAndDelete_def)

text \<open>
  C1 (amended). While the store answers (and identifiers are unique in it), a delete
  with a well-formed identifier is answered 200 with the confirmation message; a
  following listing reports exactly the records with another identifier (none with the
  deleted one), and when no record had the identifier the store is unchanged. A malformed
  identifier, and a failure of the store, are answered 400 with the error.
\<close>

theorem delete_task_amended:
  "(fault db = None \<and> distinct (map task_id (docs db)) \<longrightarrow>
      (\<exists>db'. delete_api_tasks_id e (WellFormed i) db = ((200, Message ''Task deleted''), db') \<and>
         set (docs db') = {t \<in> set (docs db). task_id t \<noteq> i} \<and>
         (\<exists>ts. get_api_tasks e' db' = (200, TaskArray ts) \<and>
               set ts = hydrate e' ` {t \<in> set (docs db). task_id t \<noteq> i} \<and>
               i \<notin> task_id ` set ts) \<and>
         (i \<notin> task_id ` set (docs db) \<longrightarrow> db' = db))) \<and>
   delete_api_tasks_id e (Malformed raw) db = ((400, Error (CastError ''_id'')), db) \<and>
   (\<forall>m. fault db = Some m \<longrightarrow>
      delete_api_tasks_id e (WellFormed i) db = ((400, Error (StoreError m)), db))"
  by (auto simp: delete_api_tasks_id_def findByIdAndDelete_def get_api_tasks_def find_sorted_def
      set_sort_desc set_remove_first remove_first_absent hydrate_id)

theorem delete_task_amended_witness:
  "fault sample_store = None \<and> distinct (map task_id (docs sample_store)) \<and>
   (\<exists>db'. delete_api_tasks_id sample_env (WellFormed 2) sample_store =
             ((200, Message ''Task deleted''), db') \<and>
          get_api_tasks sample_env db' =
            (200, TaskArray [sample_task 1 False (Val 10), sample_task 3 False Null])) \<and>
   delete_api_tasks_id sample_env (WellFormed 9) sample_store =
     ((200, Message ''Task deleted''), sample_store) \<and>
   delete_api_tasks_id sample_env (WellFormed 2) failing_store =
     ((400, Error (StoreError ''connection lost'')), failing_store)"
proof -
  have h1: "fault sample_store = None" by (simp add: sample_store_def)
  have h2: "distinct (map task_id (docs sample_store))"
    by (simp add: sample_store_def sample_task_def)
  have h3: "9 \<notin> task_id ` set (docs sample_store)"
    by (simp add: sample_store_def sample_task_def)
  have h4: "fault failing_store = Some ''connection lost''" by (simp add: failing_store_def)
  have run: "delete_api_tasks_id sample_env (WellFormed 2) sample_store =
      ((200, Message ''Task deleted''),
       \<lparr>docs = [sample_task 1 False (Val 10), sample_task 3 False Null], fault = None\<rparr>)"
    by (simp add: delete_api_tasks_id_def findByIdAndDelete_def sample_store_def sample_task_def)
  have lst: "get_api_tasks sample_env
        \<lparr>docs = [sample_task 1 False (Val 10), sample_task 3 False Null], fault = None\<rparr> =
      (200, TaskArray [sample_task 1 False (Val 10), sample_task 3 False Null])"
    by (simp add: get_api_tasks_def find_sorted_def sort_desc_def sample_task_def newer_eq_def
        hydrate_def)
  have a: "delete_api_tasks_id sample_env (WellFormed 9) sample_store =
     ((200, Message ''Task deleted''), sample_store)"
    using delete_task_amended[of sample_store sample_env 9] h1 h2 h3 by auto
  have b: "delete_api_tasks_id sample_env (WellFormed 2) failing_store =
     ((400, Error (StoreError ''connection lost'')), failing_store)"
    using delete_task_amended[of failing_store sample_env 2] h4 by simp
  show ?thesis using h1 h2 run lst a b by simp
qed

section \<open>Properties of the web client\<close>

subsection \<open>Responses and their status\<close>

lemma get_prop_not_null: "task \<noteq> JNull \<Longrightarrow> \<exists>v. get_prop k task = Some v"
  by (cases task) auto

lemma strict_eq_refl: "strict_eq v v"
proof (cases v)
  case Undefined
  then show ?thesis by simp
next
  case (J x)
  then show ?thesis by (cases x) simp_all
qed

lemma replace_matching_map:
  "JNull \<notin> set ts \<Longrightarrow>
   replace_matching i d ts = Some (map (\<lambda>task. if has_id i task then d else task) ts)"
proof (induction ts)
  case Nil
  show ?case by simp
next
  case (Cons task rest)
  then have "task \<noteq> JNull" by auto
  then obtain v where "get_prop ''_id'' task = Some v"
    using get_prop_not_null by blast
  with Cons show ?case by (simp add: has_id_def)
qed

lemma replace_matching_null: "JNull \<in> set ts \<Longrightarrow> replace_matching i d ts = None"
  by (induction ts) (auto split: option.splits)

lemma has_id_own: "get_prop ''_id'' task = Some i \<Longrightarrow> has_id i task"
  by (simp add: has_id_def strict_eq_refl)

text \<open>
  C3 (as stated) fails in its last clause: a response that arrived (here with status 502)
  but whose body is not JSON takes \<open>createTask\<close> into its \<open>catch\<close> branch, which logs the
  error and leaves the list as it was, although no network-level failure occurred.
\<close>

theorem catch_without_network_failure_counterexample:
  "console (createTask (Response 502 None) initial_app) = [''Error creating task:''] \<and>
   tasks (createTask (Response 502 None) initial_app) = [] \<and>
   console initial_app = []"
  by (simp add: createTask_def initial_app_def Let_def)

text \<open>
  C3 (amended). \<open>createTask\<close> and \<open>toggleTask\<close> never look at the status of a response.
  Whatever the status, \<open>createTask\<close> puts the JSON body in front of its task list, clears
  the two input fields and logs nothing; so it does with the body \<open>{error}\<close> of a 400
  answer. Whatever the status, \<open>toggleTask\<close> on a list without a \<open>null\<close> entry replaces
  every entry whose \<open>_id\<close> is the toggled identifier by the JSON body, among them the
  entry the identifier was taken from, and logs nothing. The \<open>catch\<close> branch is taken
  exactly when \<open>fetch\<close> rejected, or the body of the response was not JSON, or (in
  \<open>toggleTask\<close>) the list holds a \<open>null\<close> entry; then the list and the input fields are
  untouched.
\<close>

theorem client_ignores_status:
  "tasks (createTask (Response status (Some data)) c) = data # tasks c \<and>
   newTask (createTask (Response status (Some data)) c) = ([], []) \<and>
   console (createTask (Response status (Some data)) c) = console c \<and>
   tasks (createTask (Response 400 (Some (JObj a [(''error'', JStr m)]))) c) =
     JObj a [(''error'', JStr m)] # tasks c \<and>
   (JNull \<notin> set (tasks c) \<longrightarrow>
      tasks (toggleTask i cmpl (Response status (Some data)) c) =
        map (\<lambda>task. if has_id i task then data else task) (tasks c) \<and>
      console (toggleTask i cmpl (Response status (Some data)) c) = console c) \<and>
   (JNull \<notin> set (tasks c) \<and> k < length (tasks c) \<and> get_prop ''_id'' (tasks c ! k) = Some i \<longrightarrow>
      tasks (toggleTask i cmpl (Response status (Some data)) c) ! k = data) \<and>
   (console (createTask r c) \<noteq> console c \<longleftrightarrow>
      r = NetworkError \<or> (\<exists>status. r = Response status None)) \<and>
   (console (toggleTask i cmpl r c) \<noteq> console c \<longleftrightarrow>
      r = NetworkError \<or> (\<exists>status. r = Response status None) \<or> JNull \<in> set (tasks c)) \<and>
   (console (createTask r c) \<noteq> console c \<longrightarrow>
      tasks (createTask r c) = tasks c \<and> newTask (createTask r c) = newTask c) \<and>
   (console (toggleTask i cmpl r c) \<noteq> console c \<longrightarrow> tasks (toggleTask i cmpl r c) = tasks c)"
proof -
  have own: "JNull \<notin> set (tasks c) \<and> k < length (tasks c) \<and>
      get_prop ''_id'' (tasks c ! k) = Some i \<longrightarrow>
      tasks (toggleTask i cmpl (Response status (Some data)) c) ! k = data"
    by (simp add: toggleTask_def Let_def replace_matching_map has_id_own)
  have tog: "console (toggleTask i cmpl r c) \<noteq> console c \<longleftrightarrow>
      r = NetworkError \<or> (\<exists>status. r = Response status None) \<or> JNull \<in> set (tasks c)"
    by (cases "JNull \<in> set (tasks c)")
       (auto simp: toggleTask_def Let_def replace_matching_map replace_matching_null
          split: fetched.splits option.splits)
  have tog': "console (toggleTask i cmpl r c) \<noteq> console c \<longrightarrow>
      tasks (toggleTask i cmpl r c) = tasks c"
    by (auto simp: toggleTask_def Let_def split: fetched.splits option.splits)
  have rest: "tasks (createTask (Response status (Some data)) c) = data # tasks c \<and>
   newTask (createTask (Response status (Some data)) c) = ([], []) \<and>
   console (createTask (Response status (Some data)) c) = console c \<and>
   tasks (createTask (Response 400 (Some (JObj a [(''error'', JStr m)]))) c) =
     JObj a [(''error'', JStr m)] # tasks c \<and>
   (JNull \<notin> set (tasks c) \<longrightarrow>
      tasks (toggleTask i cmpl (Response status (Some data)) c) =
        map (\<lambda>task. if has_id i task then data else task) (tasks c) \<and>
      console (toggleTask i cmpl (Response status (Some data)) c) = console c) \<and>
   (console (createTask r c) \<noteq> console c \<longleftrightarrow>
      r = NetworkError \<or> (\<exists>status. r = Response status None)) \<and>
   (console (createTask r c) \<noteq> console c \<longrightarrow>
      tasks (createTask r c) = tasks c \<and> newTask (createTask r c) = newTask c)"
    by (auto simp: createTask_def toggleTask_def fetchServerInfo_call_def Let_def
        replace_matching_map split: fetched.splits option.splits)
  show ?thesis using own tog tog' rest by blast
qed

theorem client_ignores_status_witness:
  "JNull \<notin> set (tasks (initial_app\<lparr>tasks :=
       [JObj 1 [(''_id'', JStr ''a1''), (''completed'', JBool False)],
        JObj 2 [(''_id'', JStr ''b2''), (''completed'', JBool True)]]\<rparr>)) \<and>
   tasks (toggleTask (J (JStr ''b2'')) (J (JBool True))
       (Response 400 (Some (JObj 3 [(''error'', JStr ''store down'')])))
       (initial_app\<lparr>tasks := [JObj 1 [(''_id'', JStr ''a1''), (''completed'', JBool False)],
        JObj 2 [(''_id'', JStr ''b2''), (''completed'', JBool True)]]\<rparr>)) =
     [JObj 1 [(''_id'', JStr ''a1''), (''completed'', JBool False)],
      JObj 3 [(''error'', JStr ''store down'')]]"
proof -
  define c where "c = initial_app\<lparr>tasks :=
       [JObj 1 [(''_id'', JStr ''a1''), (''completed'', JBool False)],
        JObj 2 [(''_id'', JStr ''b2''), (''completed'', JBool True)]]\<rparr>"
  have h: "JNull \<notin> set (tasks c)" by (simp add: c_def)
  have "tasks (toggleTask (J (JStr ''b2'')) (J (JBool True))
       (Response 400 (Some (JObj 3 [(''error'', JStr ''store down'')]))) c) =
     map (\<lambda>task. if has_id (J (JStr ''b2'')) task
                  then JObj 3 [(''error'', JStr ''store down'')] else task) (tasks c)"
    using client_ignores_status[of 400 "JObj 3 [(''error'', JStr ''store down'')]" c _ _
        "J (JStr ''b2'')" "J (JBool True)"] h
    by blast
  then show ?thesis using h unfolding c_def by (simp add: has_id_def)
qed

subsection \<open>The polling timer\<close>

lemma tick_clock: "clock (tick c) = Suc (clock c)"
proof -
  have keep: "clock (fold (\<lambda>t. run_callback (run t)) ts c') = clock c'" for ts c'
  proof (induction ts arbitrary: c')
    case Nil
    show ?case by simp
  next
    case (Cons t ts)
    then show ?case by (cases "run t") (simp add: fetchServerInfo_call_def)
  qed
  show ?thesis by (simp add: tick_def fire_due_def keep)
qed

lemma tick_single_due:
  assumes "timers c = [T]" and "run T = FetchServerInfo" and "due T = Suc (clock c)"
  shows "sent (tick c) = sent c @ [GET_server_info]"
    and "timers (tick c) = [T\<lparr>due := due T + period T\<rparr>]"
  using assms by (simp_all add: tick_def fire_due_def fetchServerInfo_call_def)

lemma tick_single_idle:
  assumes "timers c = [T]" and "due T \<noteq> Suc (clock c)"
  shows "sent (tick c) = sent c" and "timers (tick c) = [T]"
  using assms by (simp_all add: tick_def fire_due_def)

lemma tick_no_timers:
  assumes "timers c = []"
  shows "sent (tick c) = sent c" and "timers (tick c) = []"
  using assms by (simp_all add: tick_def fire_due_def)

lemma elapse_no_timers: "timers c = [] \<Longrightarrow> sent (elapse n c) = sent c"
  by (induction n arbitrary: c) (simp_all add: tick_no_timers)

lemma div_step_fire: "0 < p \<Longrightarrow> (n + p) div p = Suc (n div p)" for p :: nat
  using div_add_self2[of p n] by simp

lemma elapse_single:
  assumes "timers c = [T]" and "run T = FetchServerInfo" and "0 < period T"
    and "clock c < due T" and "due T \<le> clock c + period T"
  shows "sent (elapse n c) =
           sent c @ replicate ((n + period T - (due T - clock c)) div period T) GET_server_info \<and>
         (\<exists>d. timers (elapse n c) = [T\<lparr>due := d\<rparr>])"
  using assms
proof (induction n arbitrary: c T)
  case 0
  have z: "(0 + period T - (due T - clock c)) div period T = 0"
    using "0.prems"(3,4) by simp
  have "\<exists>d. timers (elapse 0 c) = [T\<lparr>due := d\<rparr>]"
    using "0.prems"(1) by (intro exI[of _ "due T"]) simp
  then show ?case unfolding z by simp
next
  case (Suc n)
  show ?case
  proof (cases "due T = Suc (clock c)")
    case True
    define T' where "T' = T\<lparr>due := due T + period T\<rparr>"
    have s: "sent (tick c) = sent c @ [GET_server_info]" and t: "timers (tick c) = [T']"
      using tick_single_due[OF Suc.prems(1,2) True] by (simp_all add: T'_def)
    have p1: "run T' = FetchServerInfo" using Suc.prems(2) by (simp add: T'_def)
    have p2: "0 < period T'" using Suc.prems(3) by (simp add: T'_def)
    have p3: "clock (tick c) < due T'" using True Suc.prems(3) by (simp add: T'_def tick_clock)
    have p4: "due T' \<le> clock (tick c) + period T'" using True by (simp add: T'_def tick_clock)
    note ih = Suc.IH[OF t p1 p2 p3 p4]
    have k: "(n + period T' - (due T' - clock (tick c))) div period T' = n div period T"
      using True by (simp add: T'_def tick_clock)
    have k': "(Suc n + period T - (due T - clock c)) div period T = Suc (n div period T)"
      using True Suc.prems(3) by (simp add: div_step_fire)
    have tm: "\<exists>d. timers (elapse (Suc n) c) = [T\<lparr>due := d\<rparr>]"
      using ih by (auto simp: T'_def)
    have "sent (elapse (Suc n) c) = sent c @ [GET_server_info] @ replicate (n div period T) GET_server_info"
      using ih unfolding k s by simp
    then show ?thesis unfolding k' using tm by simp
  next
    case False
    have s: "sent (tick c) = sent c" and t: "timers (tick c) = [T]"
      using tick_single_idle[OF Suc.prems(1) False] by simp_all
    have p3: "clock (tick c) < due T" using False Suc.prems(4) by (simp add: tick_clock)
    have p4: "due T \<le> clock (tick c) + period T" using Suc.prems(5) by (simp add: tick_clock)
    note ih = Suc.IH[OF t Suc.prems(2,3) p3 p4]
    have k: "n + period T - (due T - clock (tick c)) = Suc n + period T - (due T - clock c)"
      using False Suc.prems(4,5) by (simp add: tick_clock)
    show ?thesis using ih unfolding k s by simp
  qed
qed

lemma mount_fields:
  assumes "timers c = []"
  shows "fst (mount c) = 1"
    and "sent (snd (mount c)) = sent c @ [GET_tasks, GET_server_info]"
    and "timers (snd (mount c)) =
           [\<lparr>timer_id = 1, period = 10000, due = clock c + 10000, run = FetchServerInfo\<rparr>]"
    and "clock (snd (mount c)) = clock c"
  using assms
  by (simp_all add: mount_def setInterval_def fetchServerInfo_call_def fetchTasks_call_def Let_def)

text \<open>
  C10. Mounting the view (no timer being registered before) issues one request for the
  task list and one for the server info. While the view stays mounted, the only further
  requests are server-info requests, one every 10000 milliseconds: \<open>t\<close> milliseconds
  after the mount there have been \<open>t div 10000\<close> of them. Tearing the view down leaves no
  timer registered, and from then on no request is issued however much time passes.
\<close>

theorem polling_schedule:
  assumes "timers c = []"
  shows "sent (elapse t (snd (mount c))) =
           sent c @ [GET_tasks, GET_server_info] @ replicate (t div 10000) GET_server_info \<and>
         timers (unmount (fst (mount c)) (elapse t (snd (mount c)))) = [] \<and>
         sent (elapse d (unmount (fst (mount c)) (elapse t (snd (mount c))))) =
           sent (elapse t (snd (mount c)))"
proof -
  let ?T = "\<lparr>timer_id = 1, period = 10000, due = clock c + 10000, run = FetchServerInfo\<rparr>"
  let ?m = "snd (mount c)"
  note m = mount_fields[OF assms]
  have e: "sent (elapse t ?m) =
           sent ?m @ replicate ((t + period ?T - (due ?T - clock ?m)) div period ?T) GET_server_info \<and>
         (\<exists>d. timers (elapse t ?m) = [?T\<lparr>due := d\<rparr>])"
    by (rule elapse_single) (simp_all add: m)
  then have s: "sent (elapse t ?m) =
      sent c @ [GET_tasks, GET_server_info] @ replicate (t div 10000) GET_server_info"
    by (simp add: m)
  from e obtain d' where d': "timers (elapse t ?m) = [?T\<lparr>due := d'\<rparr>]" by blast
  have u: "timers (unmount (fst (mount c)) (elapse t ?m)) = []"
    by (simp add: unmount_def clearInterval_def m d')
  have "sent (elapse d (unmount (fst (mount c)) (elapse t ?m))) =
        sent (unmount (fst (mount c)) (elapse t ?m))"
    using u by (rule elapse_no_timers)
  also have "\<dots> = sent (elapse t ?m)" by (simp add: unmount_def clearInterval_def)
  finally show ?thesis using s u by simp
qed

theorem polling_schedule_witness:
  "timers initial_app = [] \<and>
   sent (elapse 25000 (snd (mount initial_app))) =
     [GET_tasks, GET_server_info, GET_server_info, GET_server_info] \<and>
   sent (elapse 60000 (unmount (fst (mount initial_app)) (elapse 25000 (snd (mount initial_app))))) =
     [GET_tasks, GET_server_info, GET_server_info, GET_server_info]"
proof -
  have h: "timers initial_app = []" by (simp add: initial_app_def)
  have r: "sent initial_app @ [GET_tasks, GET_server_info] @
             replicate (25000 div 10000) GET_server_info =
           [GET_tasks, GET_server_info, GET_server_info, GET_server_info]"
    by (simp add: numeral_2_eq_2 initial_app_def)
  note p = polling_schedule[OF h, of 25000 60000]
  have a0: "sent (elapse 25000 (snd (mount initial_app))) =
      sent initial_app @ [GET_tasks, GET_server_info] @
        replicate (25000 div 10000) GET_server_info"
    by (rule conjunct1[OF p])
  have a: "sent (elapse 25000 (snd (mount initial_app))) =
      [GET_tasks, GET_server_info, GET_server_info, GET_server_info]"
    by (rule trans[OF a0 r])
  have b0: "sent (elapse 60000 (unmount (fst (mount initial_app))
            (elapse 25000 (snd (mount initial_app))))) =
      sent (elapse 25000 (snd (mount initial_app)))"
    by (rule conjunct2[OF conjunct2[OF p]])
  have b: "sent (elapse 60000 (unmount (fst (mount initial_app))
            (elapse 25000 (snd (mount initial_app))))) =
      [GET_tasks, GET_server_info, GET_server_info, GET_server_info]"
    by (rule trans[OF b0 a])
  show ?thesis by (rule conjI[OF h conjI[OF a b]])
qed

section \<open>Properties of client and service together\<close>
















section \<open>Properties of the provisioning script\<close>

text \<open>
  C9. The target-group creation command of the provisioning script sets the health-check
  protocol to HTTP, the health-check path to /health, the interval to 30 seconds, the
  timeout to 5 seconds, the healthy threshold to 2 and the unhealthy threshold to 3, for
  a target group on port 5000 with protocol HTTP.
\<close>

theorem target_group_health_check:
  "option_value ''--health-check-protocol'' create_target_group = Some (Lit ''HTTP'') \<and>
   option_value ''--health-check-path'' create_target_group = Some (Lit ''/health'') \<and>
   option_value ''--health-check-interval-seconds'' create_target_group = Some (Lit ''30'') \<and>
   option_value ''--health-check-timeout-seconds'' create_target_group = Some (Lit ''5'') \<and>
   option_value ''--healthy-threshold-count'' create_target_group = Some (Lit ''2'') \<and>
   option_value ''--unhealthy-threshold-count'' create_target_group = Some (Lit ''3'') \<and>
   option_value ''--port'' create_target_group = Some (Lit ''5000'') \<and>
   option_value ''--protocol'' create_target_group = Some (Lit ''HTTP'')"
  by (simp add: create_target_group_def)

end
